theory Spec2Isabelle
  imports Main
begin

section \<open>Values exchanged with the external libraries\<close>

text \<open>
  Both scripts are call sites of two external libraries: an agent runtime
  (\<^verbatim>\<open>Agent(model, system_prompt=...)\<close>, \<^verbatim>\<open>await agent.run(prompt)\<close>) and a
  durability engine (\<^verbatim>\<open>dbos.launch\<close>, \<^verbatim>\<open>dbos.step()\<close>, \<^verbatim>\<open>dbos.workflow()\<close>).
  Neither library is part of the repository, so both are parameters of the model.

  A Python exception is a value: its class name and its message. The TypeError
  that Python raises when a call does not fit the parameter list of a function is
  kept by its cause: the keyword that names no parameter
  (\<^verbatim>\<open>main() got an unexpected keyword argument 'model'\<close>) or the required parameter
  left without a value (\<^verbatim>\<open>main() missing 1 required positional argument: 'query'\<close>).
\<close>

datatype bind_error = UnexpectedKeyword string | MissingArgument string

datatype exn = Exn string string | TypeError bind_error

text \<open>An agent object is the pair the constructor was given.\<close>

datatype agent = Agent (model_of: string) (prompt_of: string)

text \<open>
  Modelled from the spec: the type of the value returned by \<^verbatim>\<open>agent.run\<close> is
  declared by the agent library. Section 3 gives its shape: a text payload
  (\<^verbatim>\<open>result.data\<close>) and a usage record with an input-token count
  (\<^verbatim>\<open>result.usage.request_tokens\<close>) and an output-token count
  (\<^verbatim>\<open>result.usage.response_tokens\<close>).
\<close>

datatype usage = Usage (request_tokens: int) (response_tokens: int)

datatype run_result = RunResult (data: string) (usage: usage)

text \<open>The dataclass declared in \<^verbatim>\<open>durable_workflow.py\<close>, lines 14 to 18.\<close>

record ResearchResult =
  query :: string
  research :: string
  summary :: string

text \<open>
  The Python values the entry points can return: strings, integers, dict literals
  (insertion ordered, so association lists) and instances of the dataclass.
\<close>

datatype pyval =
    PStr string
  | PInt int
  | PDict "(string \<times> pyval) list"
  | PObj ResearchResult

fun is_ResearchResult :: "pyval \<Rightarrow> bool" where
  "is_ResearchResult (PObj r) = True"
| "is_ResearchResult v = False"

fun is_dict :: "pyval \<Rightarrow> bool" where
  "is_dict (PDict kvs) = True"
| "is_dict v = False"

fun is_str :: "pyval \<Rightarrow> bool" where
  "is_str (PStr s) = True"
| "is_str v = False"

fun items :: "pyval \<Rightarrow> (string \<times> pyval) list" where
  "items (PDict kvs) = kvs"
| "items v = []"

section \<open>Traces and the external world\<close>

text \<open>
  Every call that leaves the script is recorded, in order, with its arguments:
  reading an environment variable, launching the engine, constructing an agent,
  running an agent, and invoking a decorated step from the workflow function.
\<close>

datatype event =
    EnvGet string
  | Launch "string option"
  | NewAgent agent
  | Run agent string
  | Call string string

fun is_EnvGet :: "event \<Rightarrow> bool" where
  "is_EnvGet (EnvGet n) = True"
| "is_EnvGet ev = False"

fun is_Launch :: "event \<Rightarrow> bool" where
  "is_Launch (Launch u) = True"
| "is_Launch ev = False"

fun is_NewAgent :: "event \<Rightarrow> bool" where
  "is_NewAgent (NewAgent a) = True"
| "is_NewAgent ev = False"

fun is_Run :: "event \<Rightarrow> bool" where
  "is_Run (Run a p) = True"
| "is_Run ev = False"

fun is_Call :: "event \<Rightarrow> bool" where
  "is_Call (Call f x) = True"
| "is_Call ev = False"

text \<open>
  A computation reads the history of events so far and yields either the raised
  exception or the returned value, together with the events it appended. The
  history can be read and extended, never rewritten.
\<close>

type_synonym 'a io = "event list \<Rightarrow> (exn + 'a) \<times> event list"

definition io_return :: "'a \<Rightarrow> 'a io" where
  "io_return x = (\<lambda>h. (Inr x, []))"

definition io_raise :: "exn \<Rightarrow> 'a io" where
  "io_raise e = (\<lambda>h. (Inl e, []))"

text \<open>
  Sequencing two statements. An exception of the first one skips the second one
  and is the outcome: neither script has a \<^verbatim>\<open>try\<close> block.
\<close>

definition io_bind :: "'a io \<Rightarrow> ('a \<Rightarrow> 'b io) \<Rightarrow> 'b io" where
  "io_bind m f = (\<lambda>h.
     case m h of
       (Inl e, es) \<Rightarrow> (Inl e, es)
     | (Inr x, es) \<Rightarrow> (case f x (h @ es) of (r, es') \<Rightarrow> (r, es @ es')))"

text \<open>
  The external world. Each answer may depend on the history, so a mock may answer
  the first and the second run differently. The two decorators of the engine are
  arbitrary wrappers: they receive the function they decorate.
\<close>

record world =
  environ :: "string \<Rightarrow> string option"
  launch :: "event list \<Rightarrow> string option \<Rightarrow> exn option"
  agent_new :: "event list \<Rightarrow> agent \<Rightarrow> exn option"
  agent_run :: "event list \<Rightarrow> agent \<Rightarrow> string \<Rightarrow> exn + run_result"
  step :: "string \<Rightarrow> (string \<Rightarrow> string io) \<Rightarrow> string \<Rightarrow> string io"
  workflow :: "(string \<Rightarrow> pyval io) \<Rightarrow> string \<Rightarrow> pyval io"

text \<open>\<^verbatim>\<open>os.environ.get(name)\<close>: the value, or None when the variable is unset.\<close>

definition environ_get :: "world \<Rightarrow> string \<Rightarrow> (string option) io" where
  "environ_get w name = (\<lambda>h. (Inr (environ w name), [EnvGet name]))"

text \<open>\<^verbatim>\<open>dbos.launch(database_url=url)\<close>.\<close>

definition dbos_launch :: "world \<Rightarrow> string option \<Rightarrow> unit io" where
  "dbos_launch w url = (\<lambda>h.
     ((case launch w h url of Some e \<Rightarrow> Inl e | None \<Rightarrow> Inr ()), [Launch url]))"

text \<open>\<^verbatim>\<open>Agent(model, system_prompt=sp)\<close>.\<close>

definition new_Agent :: "world \<Rightarrow> string \<Rightarrow> string \<Rightarrow> agent io" where
  "new_Agent w m sp = (\<lambda>h.
     ((case agent_new w h (Agent m sp) of Some e \<Rightarrow> Inl e | None \<Rightarrow> Inr (Agent m sp)),
      [NewAgent (Agent m sp)]))"

text \<open>\<^verbatim>\<open>await agent.run(prompt)\<close>.\<close>

definition run :: "world \<Rightarrow> agent \<Rightarrow> string \<Rightarrow> run_result io" where
  "run w a p = (\<lambda>h. (agent_run w h a p, [Run a p]))"

text \<open>\<^verbatim>\<open>await f(x)\<close> for a decorated step \<^verbatim>\<open>f\<close>: the invocation is recorded, then made.\<close>

definition call :: "string \<Rightarrow> (string \<Rightarrow> 'a io) \<Rightarrow> string \<Rightarrow> 'a io" where
  "call name f x = io_bind (\<lambda>h. (Inr (), [Call name x])) (\<lambda>u. f x)"

section \<open>\<^verbatim>\<open>simple_agent.py\<close>\<close>

definition default_model :: string where
  "default_model = ''anthropic:claude-sonnet-4-20250514''"

text \<open>The module level of \<^verbatim>\<open>simple_agent.py\<close> holds an import and the definition only.\<close>

definition simple_agent_module :: "world \<Rightarrow> unit io" where
  "simple_agent_module w = io_return ()"

text \<open>
  \<^verbatim>\<open>async def main(query: str, model: str = "anthropic:claude-sonnet-4-20250514")\<close>.
  The optional argument is \<open>None\<close> when the caller leaves it out.
\<close>

definition simple_agent_main :: "world \<Rightarrow> string \<Rightarrow> string option \<Rightarrow> pyval io" where
  "simple_agent_main w q model_arg =
     io_bind (new_Agent w (case model_arg of None \<Rightarrow> default_model | Some m \<Rightarrow> m)
                ''You are a helpful assistant.'') (\<lambda>agent.
     io_bind (run w agent q) (\<lambda>result.
     io_return (PDict
       [(''response'', PStr (data result)),
        (''usage'', PDict
           [(''input_tokens'', PInt (request_tokens (usage result))),
            (''output_tokens'', PInt (response_tokens (usage result)))])])))"

section \<open>\<^verbatim>\<open>durable_workflow.py\<close>\<close>

text \<open>Module level, line 12: \<^verbatim>\<open>dbos.launch(database_url=os.environ.get("DATABASE_URL"))\<close>.\<close>

definition durable_workflow_module :: "world \<Rightarrow> unit io" where
  "durable_workflow_module w =
     io_bind (environ_get w ''DATABASE_URL'') (\<lambda>url. dbos_launch w url)"

text \<open>The function under \<^verbatim>\<open>@dbos.step()\<close> at line 21, and the decorated step.\<close>

definition do_research_body :: "world \<Rightarrow> string \<Rightarrow> string io" where
  "do_research_body w q =
     io_bind (new_Agent w ''anthropic:claude-sonnet-4-20250514''
                ''Research the topic thoroughly.'') (\<lambda>agent.
     io_bind (run w agent q) (\<lambda>result.
     io_return (data result)))"

definition do_research :: "world \<Rightarrow> string \<Rightarrow> string io" where
  "do_research w = step w ''do_research'' (do_research_body w)"

text \<open>The function under \<^verbatim>\<open>@dbos.step()\<close> at line 29, and the decorated step.\<close>

definition summarize_body :: "world \<Rightarrow> string \<Rightarrow> string io" where
  "summarize_body w r =
     io_bind (new_Agent w ''anthropic:claude-sonnet-4-20250514''
                ''Summarize in 2-3 sentences.'') (\<lambda>agent.
     io_bind (run w agent (''Summarize: '' @ r)) (\<lambda>result.
     io_return (data result)))"

definition summarize :: "world \<Rightarrow> string \<Rightarrow> string io" where
  "summarize w = step w ''summarize'' (summarize_body w)"

text \<open>The function under \<^verbatim>\<open>@dbos.workflow()\<close> at line 37, and the decorated entry point.\<close>

definition durable_workflow_main_body :: "world \<Rightarrow> string \<Rightarrow> pyval io" where
  "durable_workflow_main_body w q =
     io_bind (call ''do_research'' (do_research w) q) (\<lambda>r.
     io_bind (call ''summarize'' (summarize w) r) (\<lambda>s.
     io_return (PDict [(''query'', PStr q), (''research'', PStr r), (''summary'', PStr s)])))"

definition durable_workflow_main :: "world \<Rightarrow> string \<Rightarrow> pyval io" where
  "durable_workflow_main w = workflow w (durable_workflow_main_body w)"

text \<open>
  Calls that pass the inputs by name, \<^verbatim>\<open>main(**kwargs)\<close>. Python binds such a call
  against the parameter list of the \<^verbatim>\<open>def\<close>: the first keyword that names no
  parameter raises a TypeError, then a parameter left with neither a value nor a
  default raises one, and a parameter with a default takes it when it is left out.
  The parameter lists are those of the two \<^verbatim>\<open>async def main\<close> lines:
  \<^verbatim>\<open>(query: str, model: str = "anthropic:claude-sonnet-4-20250514")\<close> in
  \<^verbatim>\<open>simple_agent.py\<close> and \<^verbatim>\<open>(query: str)\<close> in \<^verbatim>\<open>durable_workflow.py\<close>. For the
  durable script this is the call of the function that the workflow decorator
  receives; what the decorated name accepts is up to the engine.
\<close>

type_synonym kwargs = "(string \<times> string) list"

definition unexpected_keywords :: "string list \<Rightarrow> kwargs \<Rightarrow> string list" where
  "unexpected_keywords params kwargs = filter (\<lambda>k. k \<notin> set params) (map fst kwargs)"

definition simple_agent_main_kw :: "world \<Rightarrow> kwargs \<Rightarrow> pyval io" where
  "simple_agent_main_kw w kwargs =
     (case unexpected_keywords [''query'', ''model''] kwargs of
        k # ks \<Rightarrow> io_raise (TypeError (UnexpectedKeyword k))
      | [] \<Rightarrow>
          (case map_of kwargs ''query'' of
             None \<Rightarrow> io_raise (TypeError (MissingArgument ''query''))
           | Some q \<Rightarrow> simple_agent_main w q (map_of kwargs ''model'')))"

definition durable_workflow_main_body_kw :: "world \<Rightarrow> kwargs \<Rightarrow> pyval io" where
  "durable_workflow_main_body_kw w kwargs =
     (case unexpected_keywords [''query''] kwargs of
        k # ks \<Rightarrow> io_raise (TypeError (UnexpectedKeyword k))
      | [] \<Rightarrow>
          (case map_of kwargs ''query'' of
             None \<Rightarrow> io_raise (TypeError (MissingArgument ''query''))
           | Some q \<Rightarrow> durable_workflow_main_body w q))"

text \<open>An engine whose decorators hand the call to the decorated function unchanged.\<close>

definition passthrough :: "world \<Rightarrow> bool" where
  "passthrough w \<longleftrightarrow> step w = (\<lambda>name f. f) \<and> workflow w = (\<lambda>f. f)"

text \<open>Projections of a trace.\<close>

definition runs :: "event list \<Rightarrow> event list" where
  "runs t = filter is_Run t"

definition models_constructed :: "event list \<Rightarrow> string list" where
  "models_constructed t = concat (map (\<lambda>ev. case ev of NewAgent a \<Rightarrow> [model_of a] | _ \<Rightarrow> []) t)"

text \<open>
  A mock world for concrete runs: the variable is unset, every call succeeds, a
  run answers with the prompt in brackets and token counts 3 and 5, and the
  decorators pass through.
\<close>

definition mock :: world where
  "mock = \<lparr> environ = (\<lambda>n. None),
            launch = (\<lambda>h u. None),
            agent_new = (\<lambda>h a. None),
            agent_run = (\<lambda>h a p. Inr (RunResult (''['' @ p @ '']'') (Usage 3 5))),
            step = (\<lambda>name f. f),
            workflow = (\<lambda>f. f) \<rparr>"

text \<open>The same world, but every agent run raises.\<close>

definition mock_run_fails :: world where
  "mock_run_fails = mock \<lparr> agent_run := (\<lambda>h a p. Inl (Exn ''ModelHTTPError'' ''503'')) \<rparr>"

text \<open>The three agents the scripts construct, and what a step makes of a run.\<close>

definition research_agent :: agent where
  "research_agent = Agent ''anthropic:claude-sonnet-4-20250514'' ''Research the topic thoroughly.''"

definition summary_agent :: agent where
  "summary_agent = Agent ''anthropic:claude-sonnet-4-20250514'' ''Summarize in 2-3 sentences.''"

definition assistant :: "string option \<Rightarrow> agent" where
  "assistant model_arg =
     Agent (case model_arg of None \<Rightarrow> default_model | Some m \<Rightarrow> m) ''You are a helpful assistant.''"

fun returned :: "exn + run_result \<Rightarrow> exn + string" where
  "returned (Inl e) = Inl e"
| "returned (Inr res) = Inr (data res)"

fun returns_ResearchResult :: "exn + pyval \<Rightarrow> bool" where
  "returns_ResearchResult (Inr v) = is_ResearchResult v"
| "returns_ResearchResult (Inl e) = False"


definition mock_agent_new_fails :: world where
  "mock_agent_new_fails = mock \<lparr> agent_new := (\<lambda>h a. Some (Exn ''UserError'' ''no API key'')) \<rparr>"

definition mock_launch_fails :: world where
  "mock_launch_fails = mock \<lparr> launch := (\<lambda>h u. Some (Exn ''DBOSException'' ''no database'')) \<rparr>"

definition mock_engine_down :: world where
  "mock_engine_down = mock \<lparr> step := (\<lambda>name f x h. (Inl (Exn ''DBOSException'' ''store unavailable''), [])) \<rparr>"

definition mock_with_database :: world where
  "mock_with_database = mock \<lparr> environ := (\<lambda>n. if n = ''DATABASE_URL'' then Some ''postgresql://db/wf'' else None) \<rparr>"

text \<open>
  An engine that resumes a workflow: the research step is not run again, its
  recorded result is returned; the summarize step runs.
\<close>

definition mock_replay :: world where
  "mock_replay = mock \<lparr> step := (\<lambda>name f x.
      if name = ''do_research'' then io_return ''recorded research'' else f x) \<rparr>"

section \<open>What each function computes\<close>

lemma io_bind_Inl: "m h = (Inl e, es) \<Longrightarrow> io_bind m f h = (Inl e, es)"
  by (simp add: io_bind_def)

lemma io_bind_Inr:
  "m h = (Inr x, es) \<Longrightarrow> io_bind m f h = (fst (f x (h @ es)), es @ snd (f x (h @ es)))"
  by (simp add: io_bind_def split: prod.splits)

lemma call_eq:
  "call name f x h = (fst (f x (h @ [Call name x])), Call name x # snd (f x (h @ [Call name x])))"
  by (simp add: call_def io_bind_def split: prod.splits)

text \<open>Constructing an agent and running it once: the pattern all three functions share.\<close>

lemma agent_call_eq:
  "io_bind (new_Agent w m sp) (\<lambda>agent. io_bind (run w agent p) (\<lambda>result. io_return (g result))) h =
     (case agent_new w h (Agent m sp) of
        Some e \<Rightarrow> (Inl e, [NewAgent (Agent m sp)])
      | None \<Rightarrow>
          (case agent_run w (h @ [NewAgent (Agent m sp)]) (Agent m sp) p of
             Inl e \<Rightarrow> (Inl e, [NewAgent (Agent m sp), Run (Agent m sp) p])
           | Inr res \<Rightarrow> (Inr (g res), [NewAgent (Agent m sp), Run (Agent m sp) p])))"
  by (simp add: io_bind_def new_Agent_def run_def io_return_def split: option.splits sum.splits)

lemma do_research_body_eq:
  "do_research_body w q h =
     (case agent_new w h research_agent of
        Some e \<Rightarrow> (Inl e, [NewAgent research_agent])
      | None \<Rightarrow> (returned (agent_run w (h @ [NewAgent research_agent]) research_agent q),
                  [NewAgent research_agent, Run research_agent q]))"
  unfolding do_research_body_def agent_call_eq research_agent_def
  by (simp split: option.splits sum.splits)

lemma summarize_body_eq:
  "summarize_body w r h =
     (case agent_new w h summary_agent of
        Some e \<Rightarrow> (Inl e, [NewAgent summary_agent])
      | None \<Rightarrow> (returned (agent_run w (h @ [NewAgent summary_agent]) summary_agent (''Summarize: '' @ r)),
                  [NewAgent summary_agent, Run summary_agent (''Summarize: '' @ r)]))"
  unfolding summarize_body_def agent_call_eq summary_agent_def
  by (simp split: option.splits sum.splits)

lemma simple_agent_main_eq:
  "simple_agent_main w q m h =
     (case agent_new w h (assistant m) of
        Some e \<Rightarrow> (Inl e, [NewAgent (assistant m)])
      | None \<Rightarrow>
          (case agent_run w (h @ [NewAgent (assistant m)]) (assistant m) q of
             Inl e \<Rightarrow> (Inl e, [NewAgent (assistant m), Run (assistant m) q])
           | Inr res \<Rightarrow>
               (Inr (PDict
                  [(''response'', PStr (data res)),
                   (''usage'', PDict
                      [(''input_tokens'', PInt (request_tokens (usage res))),
                       (''output_tokens'', PInt (response_tokens (usage res)))])]),
                [NewAgent (assistant m), Run (assistant m) q])))"
  unfolding simple_agent_main_def agent_call_eq assistant_def
  by (simp split: option.splits sum.splits)

lemma main_body_eq:
  "durable_workflow_main_body w q h =
     (case do_research w q (h @ [Call ''do_research'' q]) of
        (Inl e, es1) \<Rightarrow> (Inl e, Call ''do_research'' q # es1)
      | (Inr r, es1) \<Rightarrow>
          (case summarize w r (h @ Call ''do_research'' q # es1 @ [Call ''summarize'' r]) of
             (Inl e, es2) \<Rightarrow> (Inl e, Call ''do_research'' q # es1 @ Call ''summarize'' r # es2)
           | (Inr s, es2) \<Rightarrow>
               (Inr (PDict [(''query'', PStr q), (''research'', PStr r), (''summary'', PStr s)]),
                Call ''do_research'' q # es1 @ Call ''summarize'' r # es2)))"
  by (simp add: durable_workflow_main_body_def io_bind_def call_def io_return_def
           split: prod.splits sum.splits)

lemma passthrough_do_research: "passthrough w \<Longrightarrow> do_research w = do_research_body w"
  by (simp add: passthrough_def do_research_def)

lemma passthrough_summarize: "passthrough w \<Longrightarrow> summarize w = summarize_body w"
  by (simp add: passthrough_def summarize_def)

lemma passthrough_main: "passthrough w \<Longrightarrow> durable_workflow_main w = durable_workflow_main_body w"
  by (simp add: passthrough_def durable_workflow_main_def)

lemma passthrough_mock: "passthrough mock"
  by (simp add: passthrough_def mock_def)

lemma passthrough_mock_run_fails: "passthrough mock_run_fails"
  by (simp add: passthrough_def mock_run_fails_def mock_def)

lemma mock_fields:
  "environ mock n = None"
  "launch mock h u = None"
  "agent_new mock h a = None"
  "agent_run mock h a p = Inr (RunResult (''['' @ p @ '']'') (Usage 3 5))"
  by (simp_all add: mock_def)

lemma durable_main_passthrough_eq:
  assumes "passthrough w"
  shows "durable_workflow_main w q h =
     (case agent_new w (h @ [Call ''do_research'' q]) research_agent of
        Some e \<Rightarrow> (Inl e, [Call ''do_research'' q, NewAgent research_agent])
      | None \<Rightarrow>
         (case agent_run w (h @ [Call ''do_research'' q, NewAgent research_agent]) research_agent q of
            Inl e \<Rightarrow> (Inl e, [Call ''do_research'' q, NewAgent research_agent, Run research_agent q])
          | Inr r1 \<Rightarrow>
             (case agent_new w (h @ [Call ''do_research'' q, NewAgent research_agent,
                                     Run research_agent q, Call ''summarize'' (data r1)])
                     summary_agent of
                Some e \<Rightarrow>
                  (Inl e, [Call ''do_research'' q, NewAgent research_agent, Run research_agent q,
                           Call ''summarize'' (data r1), NewAgent summary_agent])
              | None \<Rightarrow>
                 (case agent_run w (h @ [Call ''do_research'' q, NewAgent research_agent,
                                         Run research_agent q, Call ''summarize'' (data r1),
                                         NewAgent summary_agent])
                         summary_agent (''Summarize: '' @ data r1) of
                    Inl e \<Rightarrow>
                      (Inl e, [Call ''do_research'' q, NewAgent research_agent, Run research_agent q,
                               Call ''summarize'' (data r1), NewAgent summary_agent,
                               Run summary_agent (''Summarize: '' @ data r1)])
                  | Inr r2 \<Rightarrow>
                      (Inr (PDict [(''query'', PStr q), (''research'', PStr (data r1)),
                                   (''summary'', PStr (data r2))]),
                       [Call ''do_research'' q, NewAgent research_agent, Run research_agent q,
                        Call ''summarize'' (data r1), NewAgent summary_agent,
                        Run summary_agent (''Summarize: '' @ data r1)])))))"
  by (simp add: passthrough_main [OF assms] passthrough_do_research [OF assms]
        passthrough_summarize [OF assms] main_body_eq do_research_body_eq summarize_body_eq
        split: option.splits sum.splits)

lemma mock_durable_run:
  "durable_workflow_main mock ''topic'' [] =
     (Inr (PDict [(''query'', PStr ''topic''), (''research'', PStr ''[topic]''),
                  (''summary'', PStr ''[Summarize: [topic]]'')]),
      [Call ''do_research'' ''topic'', NewAgent research_agent, Run research_agent ''topic'',
       Call ''summarize'' ''[topic]'', NewAgent summary_agent,
       Run summary_agent ''Summarize: [topic]''])"
  by (simp add: durable_main_passthrough_eq [OF passthrough_mock] mock_fields)

lemma model_of_agents:
  "model_of research_agent = default_model"
  "model_of summary_agent = default_model"
  "model_of (assistant m) = (case m of None \<Rightarrow> default_model | Some x \<Rightarrow> x)"
  by (simp_all add: research_agent_def summary_agent_def assistant_def default_model_def)

text \<open>The model identifiers handed to the agent constructor.\<close>

lemma models_simple:
  "models_constructed (snd (simple_agent_main w q model_arg h)) =
     [case model_arg of None \<Rightarrow> default_model | Some m \<Rightarrow> m]"
  by (simp add: simple_agent_main_eq models_constructed_def model_of_agents
        split: option.splits sum.splits)

lemma models_do_research: "models_constructed (snd (do_research_body w q h)) = [default_model]"
  by (simp add: do_research_body_eq models_constructed_def model_of_agents split: option.splits)

lemma models_summarize: "models_constructed (snd (summarize_body w r h)) = [default_model]"
  by (simp add: summarize_body_eq models_constructed_def model_of_agents split: option.splits)

text \<open>The import-time statement of the durable script.\<close>

lemma durable_workflow_module_eq:
  "durable_workflow_module w h =
     ((case launch w (h @ [EnvGet ''DATABASE_URL'']) (environ w ''DATABASE_URL'') of
         Some e \<Rightarrow> Inl e | None \<Rightarrow> Inr ()),
      [EnvGet ''DATABASE_URL'', Launch (environ w ''DATABASE_URL'')])"
  by (simp add: durable_workflow_module_def io_bind_def environ_get_def dbos_launch_def
        split: option.splits)

text \<open>The fields of the other mock worlds.\<close>

lemma mock_run_fails_fields:
  "agent_new mock_run_fails h a = None"
  "agent_run mock_run_fails h a p = Inl (Exn ''ModelHTTPError'' ''503'')"
  by (simp_all add: mock_run_fails_def mock_def)


lemma mock_agent_new_fails_fields:
  "agent_new mock_agent_new_fails h a = Some (Exn ''UserError'' ''no API key'')"
  by (simp add: mock_agent_new_fails_def mock_def)

lemma mock_launch_fails_fields:
  "environ mock_launch_fails n = None"
  "launch mock_launch_fails h u = Some (Exn ''DBOSException'' ''no database'')"
  by (simp_all add: mock_launch_fails_def mock_def)

lemma mock_with_database_fields:
  "environ mock_with_database ''DATABASE_URL'' = Some ''postgresql://db/wf''"
  "launch mock_with_database h u = None"
  "agent_new mock_with_database h a = None"
  "agent_run mock_with_database h a p = Inr (RunResult (''['' @ p @ '']'') (Usage 3 5))"
  by (simp_all add: mock_with_database_def mock_def)

lemma mock_replay_fields:
  "agent_new mock_replay h a = None"
  "agent_run mock_replay h a p = Inr (RunResult (''['' @ p @ '']'') (Usage 3 5))"
  by (simp_all add: mock_replay_def mock_def)


text \<open>The decorated steps in the worlds whose engine does not pass through.\<close>

lemma mock_engine_down_steps:
  "do_research mock_engine_down q h = (Inl (Exn ''DBOSException'' ''store unavailable''), [])"
  "summarize mock_engine_down r h = (Inl (Exn ''DBOSException'' ''store unavailable''), [])"
  by (simp_all add: do_research_def summarize_def mock_engine_down_def mock_def)

lemma mock_engine_down_workflow: "workflow mock_engine_down = (\<lambda>f. f)"
  by (simp add: mock_engine_down_def mock_def)

lemma mock_replay_steps:
  "do_research mock_replay q h = (Inr ''recorded research'', [])"
  "summarize mock_replay = summarize_body mock_replay"
  by (simp_all add: do_research_def summarize_def mock_replay_def mock_def io_return_def)

lemma not_passthrough_mock_replay: "\<not> passthrough mock_replay"
proof
  assume "passthrough mock_replay"
  then have "do_research mock_replay = do_research_body mock_replay"
    by (rule passthrough_do_research)
  then have "do_research mock_replay ''topic'' [] = do_research_body mock_replay ''topic'' []"
    by simp
  then show False
    by (simp add: mock_replay_steps do_research_body_eq mock_replay_fields)
qed

text \<open>The agent runs a function awaits.\<close>

lemma runs_simple:
  "runs (snd (simple_agent_main w q m h)) =
     (if agent_new w h (assistant m) = None then [Run (assistant m) q] else [])"
  by (simp add: simple_agent_main_eq runs_def split: option.splits sum.splits)

lemma runs_do_research:
  "runs (snd (do_research_body w q h)) =
     (if agent_new w h research_agent = None then [Run research_agent q] else [])"
  by (simp add: do_research_body_eq runs_def split: option.splits)

lemma runs_summarize:
  "runs (snd (summarize_body w r h)) =
     (if agent_new w h summary_agent = None then [Run summary_agent (''Summarize: '' @ r)] else [])"
  by (simp add: summarize_body_eq runs_def split: option.splits)

lemma main_body_trace:
  "snd (durable_workflow_main_body w q h) =
     (case do_research w q (h @ [Call ''do_research'' q]) of
        (Inl e, es1) \<Rightarrow> Call ''do_research'' q # es1
      | (Inr r, es1) \<Rightarrow>
          Call ''do_research'' q # es1 @ Call ''summarize'' r #
            snd (summarize w r (h @ Call ''do_research'' q # es1 @ [Call ''summarize'' r])))"
  by (simp add: main_body_eq split: prod.splits sum.splits)

lemma runs_durable_passthrough:
  assumes "passthrough w"
  shows "runs (snd (durable_workflow_main w q h)) =
     (case agent_new w (h @ [Call ''do_research'' q]) research_agent of
        Some e \<Rightarrow> []
      | None \<Rightarrow>
          Run research_agent q #
          (case agent_run w (h @ [Call ''do_research'' q, NewAgent research_agent]) research_agent q of
             Inl e \<Rightarrow> []
           | Inr r1 \<Rightarrow>
               (case agent_new w (h @ [Call ''do_research'' q, NewAgent research_agent,
                                       Run research_agent q, Call ''summarize'' (data r1)])
                       summary_agent of
                  Some e \<Rightarrow> []
                | None \<Rightarrow> [Run summary_agent (''Summarize: '' @ data r1)])))"
  by (simp add: durable_main_passthrough_eq [OF assms] runs_def split: option.splits sum.splits)

text \<open>Keyword calls.\<close>

lemma simple_agent_main_kw_accepts:
  assumes "unexpected_keywords [''query'', ''model''] kwargs = []"
    and "map_of kwargs ''query'' = Some q"
  shows "simple_agent_main_kw w kwargs = simple_agent_main w q (map_of kwargs ''model'')"
  using assms by (simp add: simple_agent_main_kw_def)

lemma durable_workflow_main_body_kw_accepts:
  assumes "unexpected_keywords [''query''] kwargs = []"
    and "map_of kwargs ''query'' = Some q"
  shows "durable_workflow_main_body_kw w kwargs = durable_workflow_main_body w q"
  using assms by (simp add: durable_workflow_main_body_kw_def)

lemma durable_workflow_main_body_kw_rejects:
  assumes "unexpected_keywords [''query''] kwargs = k # ks"
  shows "durable_workflow_main_body_kw w kwargs h = (Inl (TypeError (UnexpectedKeyword k)), [])"
  using assms by (simp add: durable_workflow_main_body_kw_def io_raise_def)

lemma model_keyword_unexpected:
  assumes "(''model'', m) \<in> set kwargs"
  shows "unexpected_keywords [''query''] kwargs \<noteq> []"
proof -
  from assms have "''model'' \<in> set (map fst kwargs)" by force
  then have "''model'' \<in> set (unexpected_keywords [''query''] kwargs)"
    by (simp add: unexpected_keywords_def)
  then show ?thesis by auto
qed

section \<open>The claims\<close>

text \<open>
  C1. Durable example, any engine, any query and any agent answers. The entry
  point is the engine's workflow wrapper around the workflow function, and each
  step is the engine's step wrapper around its step function. Whenever the research
  step returns a string and the summarize step, called with it, returns a string,
  the summarize step has been invoked with exactly the string the research step
  returned, after it, and the workflow function returns the dict of the query, the
  research step's string and the summarize step's string, in that order. The
  string a step function returns is the text of its agent's answer.
\<close>

theorem durable_pass_through:
  "durable_workflow_main w = workflow w (durable_workflow_main_body w)
   \<and> do_research w = step w ''do_research'' (do_research_body w)
   \<and> summarize w = step w ''summarize'' (summarize_body w)
   \<and> (do_research w q (h @ [Call ''do_research'' q]) = (Inr r, es1)
        \<and> summarize w r (h @ Call ''do_research'' q # es1 @ [Call ''summarize'' r]) = (Inr s, es2)
      \<longrightarrow> durable_workflow_main_body w q h =
            (Inr (PDict [(''query'', PStr q), (''research'', PStr r), (''summary'', PStr s)]),
             Call ''do_research'' q # es1 @ Call ''summarize'' r # es2))
   \<and> (agent_new w h research_agent = None
        \<and> agent_run w (h @ [NewAgent research_agent]) research_agent q = Inr r1
      \<longrightarrow> do_research_body w q h =
            (Inr (data r1), [NewAgent research_agent, Run research_agent q]))
   \<and> (agent_new w h summary_agent = None
        \<and> agent_run w (h @ [NewAgent summary_agent]) summary_agent (''Summarize: '' @ r) = Inr r2
      \<longrightarrow> summarize_body w r h =
            (Inr (data r2), [NewAgent summary_agent, Run summary_agent (''Summarize: '' @ r)]))"
proof (intro conjI impI)
  show "durable_workflow_main w = workflow w (durable_workflow_main_body w)"
    by (simp add: durable_workflow_main_def)
  show "do_research w = step w ''do_research'' (do_research_body w)"
    by (simp add: do_research_def)
  show "summarize w = step w ''summarize'' (summarize_body w)"
    by (simp add: summarize_def)
next
  assume "do_research w q (h @ [Call ''do_research'' q]) = (Inr r, es1)
        \<and> summarize w r (h @ Call ''do_research'' q # es1 @ [Call ''summarize'' r]) = (Inr s, es2)"
  then show "durable_workflow_main_body w q h =
            (Inr (PDict [(''query'', PStr q), (''research'', PStr r), (''summary'', PStr s)]),
             Call ''do_research'' q # es1 @ Call ''summarize'' r # es2)"
    by (simp add: main_body_eq)
next
  assume "agent_new w h research_agent = None
        \<and> agent_run w (h @ [NewAgent research_agent]) research_agent q = Inr r1"
  then show "do_research_body w q h =
            (Inr (data r1), [NewAgent research_agent, Run research_agent q])"
    by (simp add: do_research_body_eq)
next
  assume "agent_new w h summary_agent = None
        \<and> agent_run w (h @ [NewAgent summary_agent]) summary_agent (''Summarize: '' @ r) = Inr r2"
  then show "summarize_body w r h =
            (Inr (data r2), [NewAgent summary_agent, Run summary_agent (''Summarize: '' @ r)])"
    by (simp add: summarize_body_eq)
qed

theorem durable_pass_through_witness:
  "durable_workflow_main_body mock ''topic'' [] =
     (Inr (PDict [(''query'', PStr ''topic''), (''research'', PStr ''[topic]''),
                  (''summary'', PStr ''[Summarize: [topic]]'')]),
      [Call ''do_research'' ''topic'', NewAgent research_agent, Run research_agent ''topic'',
       Call ''summarize'' ''[topic]'', NewAgent summary_agent,
       Run summary_agent ''Summarize: [topic]''])
   \<and> \<not> passthrough mock_replay
   \<and> durable_workflow_main_body mock_replay ''topic'' [] =
     (Inr (PDict [(''query'', PStr ''topic''), (''research'', PStr ''recorded research''),
                  (''summary'', PStr ''[Summarize: recorded research]'')]),
      [Call ''do_research'' ''topic'', Call ''summarize'' ''recorded research'',
       NewAgent summary_agent, Run summary_agent ''Summarize: recorded research''])
   \<and> do_research_body mock ''topic'' [] =
     (Inr ''[topic]'', [NewAgent research_agent, Run research_agent ''topic''])
   \<and> summarize_body mock ''[topic]'' [] =
     (Inr ''[Summarize: [topic]]'', [NewAgent summary_agent, Run summary_agent ''Summarize: [topic]''])"
proof -
  note t = durable_pass_through [where w = mock and q = "''topic''" and h = "[]"
      and r = "''[topic]''" and ?es1.0 = "[NewAgent research_agent, Run research_agent ''topic'']"
      and s = "''[Summarize: [topic]]''"
      and ?es2.0 = "[NewAgent summary_agent, Run summary_agent ''Summarize: [topic]'']"
      and ?r1.0 = "RunResult ''[topic]'' (Usage 3 5)"
      and ?r2.0 = "RunResult ''[Summarize: [topic]]'' (Usage 3 5)"]
  note u = durable_pass_through [where w = mock_replay and q = "''topic''" and h = "[]"
      and r = "''recorded research''" and ?es1.0 = "[]"
      and s = "''[Summarize: recorded research]''"
      and ?es2.0 = "[NewAgent summary_agent, Run summary_agent ''Summarize: recorded research'']"]
  have a: "durable_workflow_main_body mock ''topic'' [] =
     (Inr (PDict [(''query'', PStr ''topic''), (''research'', PStr ''[topic]''),
                  (''summary'', PStr ''[Summarize: [topic]]'')]),
      [Call ''do_research'' ''topic'', NewAgent research_agent, Run research_agent ''topic'',
       Call ''summarize'' ''[topic]'', NewAgent summary_agent,
       Run summary_agent ''Summarize: [topic]''])"
    using t
    by (simp add: passthrough_do_research [OF passthrough_mock]
          passthrough_summarize [OF passthrough_mock] do_research_body_eq summarize_body_eq
          mock_fields)
  have b: "durable_workflow_main_body mock_replay ''topic'' [] =
     (Inr (PDict [(''query'', PStr ''topic''), (''research'', PStr ''recorded research''),
                  (''summary'', PStr ''[Summarize: recorded research]'')]),
      [Call ''do_research'' ''topic'', Call ''summarize'' ''recorded research'',
       NewAgent summary_agent, Run summary_agent ''Summarize: recorded research''])"
    using u by (simp add: mock_replay_steps summarize_body_eq mock_replay_fields)
  have c: "do_research_body mock ''topic'' [] =
     (Inr ''[topic]'', [NewAgent research_agent, Run research_agent ''topic''])"
    using t by (simp add: mock_fields)
  have d: "summarize_body mock ''[topic]'' [] =
     (Inr ''[Summarize: [topic]]'', [NewAgent summary_agent, Run summary_agent ''Summarize: [topic]''])"
    using t by (simp add: mock_fields)
  from a b c d not_passthrough_mock_replay show ?thesis by blast
qed

text \<open>
  C2. One-shot example, model argument left out, any query and any agent answer:
  the agent is built with the default model, and the returned dict has the field
  "response" equal to the answer's text and the field "usage" holding
  "input_tokens" and "output_tokens" equal to the answer's request and response
  token counts.
\<close>

theorem one_shot_pass_through:
  assumes "agent_new w h (assistant None) = None"
    and "agent_run w (h @ [NewAgent (assistant None)]) (assistant None) q = Inr res"
  shows "model_of (assistant None) = ''anthropic:claude-sonnet-4-20250514''
       \<and> simple_agent_main w q None h =
           (Inr (PDict
              [(''response'', PStr (data res)),
               (''usage'', PDict
                  [(''input_tokens'', PInt (request_tokens (usage res))),
                   (''output_tokens'', PInt (response_tokens (usage res)))])]),
            [NewAgent (assistant None), Run (assistant None) q])"
  using assms by (simp add: simple_agent_main_eq model_of_agents default_model_def)

theorem one_shot_pass_through_witness:
  "simple_agent_main mock ''hello'' None [] =
     (Inr (PDict
        [(''response'', PStr ''[hello]''),
         (''usage'', PDict [(''input_tokens'', PInt 3), (''output_tokens'', PInt 5)])]),
      [NewAgent (assistant None), Run (assistant None) ''hello''])"
proof -
  have a: "agent_new mock [] (assistant None) = None"
    by (simp add: mock_fields)
  have b: "agent_run mock ([] @ [NewAgent (assistant None)]) (assistant None) ''hello'' =
             Inr (RunResult ''[hello]'' (Usage 3 5))"
    by (simp add: mock_fields)
  show ?thesis using one_shot_pass_through [OF a b] by simp
qed

text \<open>
  C3. The claim says the durable workflow returns a ResearchResult record. It does
  not: the function builds a dict literal, and the dataclass is never instantiated.
\<close>

theorem returns_ResearchResult_counterexample:
  "fst (durable_workflow_main mock ''topic'' []) =
     Inr (PDict [(''query'', PStr ''topic''), (''research'', PStr ''[topic]''),
                 (''summary'', PStr ''[Summarize: [topic]]'')])
   \<and> \<not> returns_ResearchResult (fst (durable_workflow_main mock ''topic'' []))"
  by (simp add: mock_durable_run)

text \<open>
  C3, amended. After both decorated steps have returned (whatever the decorators
  do), the workflow function returns a plain dict, not a ResearchResult, with the
  three string fields "query", "research" and "summary" holding the query, the
  research step's string and the summarize step's string.
\<close>

theorem returns_dict_of_three_strings:
  assumes "do_research w q (h @ [Call ''do_research'' q]) = (Inr r, es1)"
    and "summarize w r (h @ Call ''do_research'' q # es1 @ [Call ''summarize'' r]) = (Inr s, es2)"
  shows "fst (durable_workflow_main_body w q h) =
           Inr (PDict [(''query'', PStr q), (''research'', PStr r), (''summary'', PStr s)])
       \<and> \<not> returns_ResearchResult (fst (durable_workflow_main_body w q h))"
  using assms by (simp add: main_body_eq)

theorem returns_dict_of_three_strings_witness:
  "fst (durable_workflow_main_body mock ''topic'' []) =
     Inr (PDict [(''query'', PStr ''topic''), (''research'', PStr ''[topic]''),
                 (''summary'', PStr ''[Summarize: [topic]]'')])
   \<and> \<not> returns_ResearchResult (fst (durable_workflow_main_body mock ''topic'' []))"
proof -
  have a: "do_research mock ''topic'' ([] @ [Call ''do_research'' ''topic'']) =
             (Inr ''[topic]'', [NewAgent research_agent, Run research_agent ''topic''])"
    by (simp add: passthrough_do_research [OF passthrough_mock] do_research_body_eq mock_fields)
  have b: "summarize mock ''[topic]''
             ([] @ Call ''do_research'' ''topic'' # [NewAgent research_agent, Run research_agent ''topic'']
                 @ [Call ''summarize'' ''[topic]'']) =
             (Inr ''[Summarize: [topic]]'',
              [NewAgent summary_agent, Run summary_agent ''Summarize: [topic]''])"
    by (simp add: passthrough_summarize [OF passthrough_mock] summarize_body_eq mock_fields)
  show ?thesis using returns_dict_of_three_strings [OF a b] by simp
qed

text \<open>
  C4. The claim gives both entry points an optional model identifier. The durable
  \<^verbatim>\<open>main\<close> has the query as its only parameter. With the decorators passing
  through, the entry point is that function: called with the two inputs by name it
  raises the TypeError of an unexpected keyword \<^verbatim>\<open>model\<close> before any agent is
  constructed, where the one-shot entry point constructs its agent with the
  identifier passed; called with the query it constructs both agents with the fixed
  identifier.
\<close>

theorem durable_model_argument_counterexample:
  "durable_workflow_main mock = durable_workflow_main_body mock
   \<and> durable_workflow_main_body_kw mock [(''query'', ''topic''), (''model'', ''openai:gpt-4o'')] [] =
       (Inl (TypeError (UnexpectedKeyword ''model'')), [])
   \<and> models_constructed
       (snd (simple_agent_main_kw mock [(''query'', ''topic''), (''model'', ''openai:gpt-4o'')] [])) =
       [''openai:gpt-4o'']
   \<and> models_constructed (snd (durable_workflow_main mock ''topic'' [])) =
       [''anthropic:claude-sonnet-4-20250514'', ''anthropic:claude-sonnet-4-20250514'']"
proof (intro conjI)
  show "durable_workflow_main mock = durable_workflow_main_body mock"
    by (rule passthrough_main [OF passthrough_mock])
  show "durable_workflow_main_body_kw mock [(''query'', ''topic''), (''model'', ''openai:gpt-4o'')] [] =
       (Inl (TypeError (UnexpectedKeyword ''model'')), [])"
    by (simp add: durable_workflow_main_body_kw_def unexpected_keywords_def io_raise_def)
  show "models_constructed
       (snd (simple_agent_main_kw mock [(''query'', ''topic''), (''model'', ''openai:gpt-4o'')] [])) =
       [''openai:gpt-4o'']"
    by (simp add: simple_agent_main_kw_def unexpected_keywords_def models_simple)
  show "models_constructed (snd (durable_workflow_main mock ''topic'' [])) =
       [''anthropic:claude-sonnet-4-20250514'', ''anthropic:claude-sonnet-4-20250514'']"
    by (simp add: mock_durable_run models_constructed_def research_agent_def summary_agent_def)
qed

text \<open>
  C4, amended. The one-shot \<^verbatim>\<open>main\<close> takes a query and an optional model
  identifier, and constructs its one agent with that identifier or, when it is left
  out, with the default. The durable \<^verbatim>\<open>main\<close> takes the query only: a call by name
  with the query alone runs the workflow function, a call with any other keyword,
  \<^verbatim>\<open>model\<close> among them, raises the TypeError of the first unexpected keyword and
  does nothing else. Each step function constructs its agent with the fixed
  identifier, equal to that default, whatever the engine.
\<close>

theorem model_identifier_inputs:
  "(unexpected_keywords [''query'', ''model''] kwargs = [] \<and> map_of kwargs ''query'' = Some q
      \<longrightarrow> simple_agent_main_kw w kwargs = simple_agent_main w q (map_of kwargs ''model''))
   \<and> models_constructed (snd (simple_agent_main w q model_arg h)) =
       [case model_arg of None \<Rightarrow> default_model | Some m \<Rightarrow> m]
   \<and> (unexpected_keywords [''query''] kwargs = [] \<and> map_of kwargs ''query'' = Some q
      \<longrightarrow> durable_workflow_main_body_kw w kwargs = durable_workflow_main_body w q)
   \<and> (unexpected_keywords [''query''] kwargs = k # ks
      \<longrightarrow> durable_workflow_main_body_kw w kwargs h = (Inl (TypeError (UnexpectedKeyword k)), []))
   \<and> ((''model'', m') \<in> set kwargs \<longrightarrow> unexpected_keywords [''query''] kwargs \<noteq> [])
   \<and> models_constructed (snd (do_research_body w q h)) = [default_model]
   \<and> models_constructed (snd (summarize_body w r h)) = [default_model]"
proof (intro conjI impI)
  assume "unexpected_keywords [''query'', ''model''] kwargs = [] \<and> map_of kwargs ''query'' = Some q"
  then show "simple_agent_main_kw w kwargs = simple_agent_main w q (map_of kwargs ''model'')"
    by (simp add: simple_agent_main_kw_accepts)
next
  show "models_constructed (snd (simple_agent_main w q model_arg h)) =
       [case model_arg of None \<Rightarrow> default_model | Some m \<Rightarrow> m]"
    by (rule models_simple)
next
  assume "unexpected_keywords [''query''] kwargs = [] \<and> map_of kwargs ''query'' = Some q"
  then show "durable_workflow_main_body_kw w kwargs = durable_workflow_main_body w q"
    by (simp add: durable_workflow_main_body_kw_accepts)
next
  assume "unexpected_keywords [''query''] kwargs = k # ks"
  then show "durable_workflow_main_body_kw w kwargs h = (Inl (TypeError (UnexpectedKeyword k)), [])"
    by (rule durable_workflow_main_body_kw_rejects)
next
  assume "(''model'', m') \<in> set kwargs"
  then show "unexpected_keywords [''query''] kwargs \<noteq> []"
    by (rule model_keyword_unexpected)
next
  show "models_constructed (snd (do_research_body w q h)) = [default_model]"
    by (rule models_do_research)
  show "models_constructed (snd (summarize_body w r h)) = [default_model]"
    by (rule models_summarize)
qed

theorem model_identifier_inputs_witness:
  "simple_agent_main_kw mock [(''query'', ''topic''), (''model'', ''openai:gpt-4o'')] =
     simple_agent_main mock ''topic'' (Some ''openai:gpt-4o'')
   \<and> models_constructed (snd (simple_agent_main mock ''topic'' (Some ''openai:gpt-4o'') [])) =
       [''openai:gpt-4o'']
   \<and> durable_workflow_main_body_kw mock [(''query'', ''topic'')] = durable_workflow_main_body mock ''topic''
   \<and> durable_workflow_main_body_kw mock [(''query'', ''topic''), (''model'', ''openai:gpt-4o'')] [] =
       (Inl (TypeError (UnexpectedKeyword ''model'')), [])
   \<and> unexpected_keywords [''query''] [(''query'', ''topic''), (''model'', ''openai:gpt-4o'')] \<noteq> []"
proof -
  note t = model_identifier_inputs [where w = mock and q = "''topic''" and h = "[]"
      and kwargs = "[(''query'', ''topic''), (''model'', ''openai:gpt-4o'')]"
      and model_arg = "Some ''openai:gpt-4o''" and k = "''model''" and ks = "[]"
      and m' = "''openai:gpt-4o''"]
  note u = model_identifier_inputs [where w = mock and q = "''topic''"
      and kwargs = "[(''query'', ''topic'')]"]
  have a: "simple_agent_main_kw mock [(''query'', ''topic''), (''model'', ''openai:gpt-4o'')] =
     simple_agent_main mock ''topic'' (Some ''openai:gpt-4o'')"
    using t by (simp add: unexpected_keywords_def)
  have b: "models_constructed (snd (simple_agent_main mock ''topic'' (Some ''openai:gpt-4o'') [])) =
       [''openai:gpt-4o'']"
    using t by simp
  have c: "durable_workflow_main_body_kw mock [(''query'', ''topic'')] = durable_workflow_main_body mock ''topic''"
    using u by (simp add: unexpected_keywords_def)
  have d: "durable_workflow_main_body_kw mock [(''query'', ''topic''), (''model'', ''openai:gpt-4o'')] [] =
       (Inl (TypeError (UnexpectedKeyword ''model'')), [])"
    using t by (simp add: unexpected_keywords_def)
  have e: "unexpected_keywords [''query''] [(''query'', ''topic''), (''model'', ''openai:gpt-4o'')] \<noteq> []"
    using t by simp
  from a b c d e show ?thesis by blast
qed

text \<open>
  C5. In the summarize step the prompt handed to the agent run is the research
  text prefixed with "Summarize: ", never the research text itself.
\<close>

theorem summarize_prompt_prefixed:
  assumes "agent_new w h summary_agent = None"
  shows "summarize_body w r h =
           (returned (agent_run w (h @ [NewAgent summary_agent]) summary_agent (''Summarize: '' @ r)),
            [NewAgent summary_agent, Run summary_agent (''Summarize: '' @ r)])
       \<and> ''Summarize: '' @ r \<noteq> r"
  using assms by (simp add: summarize_body_eq)

theorem summarize_prompt_prefixed_witness:
  "summarize_body mock ''notes'' [] =
     (Inr ''[Summarize: notes]'', [NewAgent summary_agent, Run summary_agent ''Summarize: notes''])"
proof -
  have a: "agent_new mock [] summary_agent = None"
    by (simp add: mock_fields)
  show ?thesis using summarize_prompt_prefixed [OF a, of "''notes''"] by (simp add: mock_fields)
qed



text \<open>
  C7. The claim counts exactly two agent calls for every invocation of the durable
  example and exactly one for the one-shot example. When the research call raises,
  the durable example has awaited one agent call and the summarize step is never
  reached; when the agent constructor raises, the one-shot example has awaited
  none; and when the engine's step wrapper raises before running the step, the
  durable example has awaited none.
\<close>

theorem agent_call_count_counterexample:
  "runs (snd (durable_workflow_main mock_run_fails ''topic'' [])) = [Run research_agent ''topic'']
   \<and> filter is_Call (snd (durable_workflow_main mock_run_fails ''topic'' [])) =
       [Call ''do_research'' ''topic'']
   \<and> runs (snd (simple_agent_main mock_agent_new_fails ''hello'' None [])) = []
   \<and> runs (snd (durable_workflow_main mock_engine_down ''topic'' [])) = []"
proof (intro conjI)
  show "runs (snd (durable_workflow_main mock_run_fails ''topic'' [])) = [Run research_agent ''topic'']"
    by (simp add: durable_main_passthrough_eq [OF passthrough_mock_run_fails]
          mock_run_fails_fields runs_def)
  show "filter is_Call (snd (durable_workflow_main mock_run_fails ''topic'' [])) =
       [Call ''do_research'' ''topic'']"
    by (simp add: durable_main_passthrough_eq [OF passthrough_mock_run_fails]
          mock_run_fails_fields)
  show "runs (snd (simple_agent_main mock_agent_new_fails ''hello'' None [])) = []"
    by (simp add: simple_agent_main_eq mock_agent_new_fails_fields runs_def)
  show "runs (snd (durable_workflow_main mock_engine_down ''topic'' [])) = []"
    by (simp add: durable_workflow_main_def mock_engine_down_workflow main_body_eq
          mock_engine_down_steps runs_def)
qed

text \<open>
  C7, amended. The one-shot entry point awaits one agent call once its agent is
  constructed, and none otherwise; so does each step function of the durable
  example. The workflow function invokes the research step first and the summarize
  step only after the research step has returned, with its result, and never when
  the research step raised. With the decorators passing through, the entry point
  therefore awaits the research call first, and the summarize call after it exactly
  when the research call returned and the second agent was constructed: two agent
  calls in sequence when nothing raises before the second one.
\<close>

theorem agent_calls_in_order:
  "runs (snd (simple_agent_main w q m h)) =
     (if agent_new w h (assistant m) = None then [Run (assistant m) q] else [])
   \<and> runs (snd (do_research_body w q h)) =
     (if agent_new w h research_agent = None then [Run research_agent q] else [])
   \<and> runs (snd (summarize_body w r h)) =
     (if agent_new w h summary_agent = None then [Run summary_agent (''Summarize: '' @ r)] else [])
   \<and> snd (durable_workflow_main_body w q h) =
     (case do_research w q (h @ [Call ''do_research'' q]) of
        (Inl e, es1) \<Rightarrow> Call ''do_research'' q # es1
      | (Inr r, es1) \<Rightarrow>
          Call ''do_research'' q # es1 @ Call ''summarize'' r #
            snd (summarize w r (h @ Call ''do_research'' q # es1 @ [Call ''summarize'' r])))
   \<and> (passthrough w \<longrightarrow>
       runs (snd (durable_workflow_main w q h)) =
         (case agent_new w (h @ [Call ''do_research'' q]) research_agent of
            Some e \<Rightarrow> []
          | None \<Rightarrow>
              Run research_agent q #
              (case agent_run w (h @ [Call ''do_research'' q, NewAgent research_agent])
                      research_agent q of
                 Inl e \<Rightarrow> []
               | Inr r1 \<Rightarrow>
                   (case agent_new w (h @ [Call ''do_research'' q, NewAgent research_agent,
                                           Run research_agent q, Call ''summarize'' (data r1)])
                           summary_agent of
                      Some e \<Rightarrow> []
                    | None \<Rightarrow> [Run summary_agent (''Summarize: '' @ data r1)]))))"
proof (intro conjI impI)
  show "runs (snd (simple_agent_main w q m h)) =
     (if agent_new w h (assistant m) = None then [Run (assistant m) q] else [])"
    by (rule runs_simple)
  show "runs (snd (do_research_body w q h)) =
     (if agent_new w h research_agent = None then [Run research_agent q] else [])"
    by (rule runs_do_research)
  show "runs (snd (summarize_body w r h)) =
     (if agent_new w h summary_agent = None then [Run summary_agent (''Summarize: '' @ r)] else [])"
    by (rule runs_summarize)
  show "snd (durable_workflow_main_body w q h) =
     (case do_research w q (h @ [Call ''do_research'' q]) of
        (Inl e, es1) \<Rightarrow> Call ''do_research'' q # es1
      | (Inr r, es1) \<Rightarrow>
          Call ''do_research'' q # es1 @ Call ''summarize'' r #
            snd (summarize w r (h @ Call ''do_research'' q # es1 @ [Call ''summarize'' r])))"
    by (rule main_body_trace)
next
  assume "passthrough w"
  then show "runs (snd (durable_workflow_main w q h)) =
         (case agent_new w (h @ [Call ''do_research'' q]) research_agent of
            Some e \<Rightarrow> []
          | None \<Rightarrow>
              Run research_agent q #
              (case agent_run w (h @ [Call ''do_research'' q, NewAgent research_agent])
                      research_agent q of
                 Inl e \<Rightarrow> []
               | Inr r1 \<Rightarrow>
                   (case agent_new w (h @ [Call ''do_research'' q, NewAgent research_agent,
                                           Run research_agent q, Call ''summarize'' (data r1)])
                           summary_agent of
                      Some e \<Rightarrow> []
                    | None \<Rightarrow> [Run summary_agent (''Summarize: '' @ data r1)])))"
    by (rule runs_durable_passthrough)
qed

theorem agent_calls_in_order_witness:
  "passthrough mock
   \<and> runs (snd (durable_workflow_main mock ''topic'' [])) =
       [Run research_agent ''topic'', Run summary_agent ''Summarize: [topic]'']
   \<and> runs (snd (simple_agent_main mock ''hello'' None [])) = [Run (assistant None) ''hello'']"
proof -
  note t = agent_calls_in_order [where w = mock and h = "[]" and m = None]
  have a: "runs (snd (durable_workflow_main mock ''topic'' [])) =
       [Run research_agent ''topic'', Run summary_agent ''Summarize: [topic]'']"
    using t [where q = "''topic''"] passthrough_mock by (simp add: mock_fields)
  have b: "runs (snd (simple_agent_main mock ''hello'' None [])) = [Run (assistant None) ''hello'']"
    using t [where q = "''hello''"] by (simp add: mock_fields)
  from a b passthrough_mock show ?thesis by blast
qed

text \<open>
  C8. At import the durable script reads one environment variable,
  \<^verbatim>\<open>DATABASE_URL\<close>, and hands the value read to the engine's launch as the database
  URL; its step functions read none. The one-shot script reads no environment
  variable, neither at import nor in its entry point.
\<close>

theorem environment_reads:
  "snd (durable_workflow_module w h) =
     [EnvGet ''DATABASE_URL'', Launch (environ w ''DATABASE_URL'')]
   \<and> filter is_EnvGet (snd (do_research_body w q h)) = []
   \<and> filter is_EnvGet (snd (summarize_body w r h)) = []
   \<and> filter is_EnvGet (snd (simple_agent_module w h)) = []
   \<and> filter is_EnvGet (snd (simple_agent_main w q m h)) = []"
  by (simp add: durable_workflow_module_eq do_research_body_eq summarize_body_eq
        simple_agent_module_def io_return_def simple_agent_main_eq
        split: option.splits sum.splits)

theorem environment_reads_witness:
  "snd (durable_workflow_module mock_with_database []) =
     [EnvGet ''DATABASE_URL'', Launch (Some ''postgresql://db/wf'')]
   \<and> filter is_EnvGet (snd (simple_agent_main mock_with_database ''hello'' None [])) = []"
  using environment_reads [where w = mock_with_database and h = "[]" and q = "''hello''" and m = None]
  by (simp add: mock_with_database_fields)



text \<open>
  C10. With \<^verbatim>\<open>DATABASE_URL\<close> unset, the import of the durable script still calls the
  engine's launch, with None as the database URL: no error of the script's own
  comes first, and the outcome of the import is the outcome of that call. The
  launch is not deferred: the step functions never call it, and any launch seen
  while the workflow function runs is the engine's doing inside a step.
\<close>

theorem launch_with_unset_variable:
  "(environ w ''DATABASE_URL'' = None \<longrightarrow>
      durable_workflow_module w h =
        ((case launch w (h @ [EnvGet ''DATABASE_URL'']) None of Some e \<Rightarrow> Inl e | None \<Rightarrow> Inr ()),
         [EnvGet ''DATABASE_URL'', Launch None]))
   \<and> filter is_Launch (snd (do_research_body w q h)) = []
   \<and> filter is_Launch (snd (summarize_body w r h)) = []
   \<and> filter is_Launch (snd (durable_workflow_main_body w q h)) =
       (case do_research w q (h @ [Call ''do_research'' q]) of
          (Inl e, es1) \<Rightarrow> filter is_Launch es1
        | (Inr r', es1) \<Rightarrow>
            filter is_Launch es1 @
            filter is_Launch
              (snd (summarize w r' (h @ Call ''do_research'' q # es1 @ [Call ''summarize'' r']))))"
proof (intro conjI impI)
  assume "environ w ''DATABASE_URL'' = None"
  then show "durable_workflow_module w h =
        ((case launch w (h @ [EnvGet ''DATABASE_URL'']) None of Some e \<Rightarrow> Inl e | None \<Rightarrow> Inr ()),
         [EnvGet ''DATABASE_URL'', Launch None])"
    by (simp add: durable_workflow_module_eq)
next
  show "filter is_Launch (snd (do_research_body w q h)) = []"
    by (simp add: do_research_body_eq split: option.splits)
  show "filter is_Launch (snd (summarize_body w r h)) = []"
    by (simp add: summarize_body_eq split: option.splits)
  show "filter is_Launch (snd (durable_workflow_main_body w q h)) =
       (case do_research w q (h @ [Call ''do_research'' q]) of
          (Inl e, es1) \<Rightarrow> filter is_Launch es1
        | (Inr r', es1) \<Rightarrow>
            filter is_Launch es1 @
            filter is_Launch
              (snd (summarize w r' (h @ Call ''do_research'' q # es1 @ [Call ''summarize'' r']))))"
    by (simp add: main_body_trace split: prod.splits sum.splits)
qed

theorem launch_with_unset_variable_witness:
  "environ mock ''DATABASE_URL'' = None
   \<and> durable_workflow_module mock [] = (Inr (), [EnvGet ''DATABASE_URL'', Launch None])
   \<and> durable_workflow_module mock_launch_fails [] =
       (Inl (Exn ''DBOSException'' ''no database''), [EnvGet ''DATABASE_URL'', Launch None])"
proof -
  have a: "durable_workflow_module mock [] = (Inr (), [EnvGet ''DATABASE_URL'', Launch None])"
    using launch_with_unset_variable [where w = mock and h = "[]"] by (simp add: mock_fields)
  have b: "durable_workflow_module mock_launch_fails [] =
       (Inl (Exn ''DBOSException'' ''no database''), [EnvGet ''DATABASE_URL'', Launch None])"
    using launch_with_unset_variable [where w = mock_launch_fails and h = "[]"]
    by (simp add: mock_launch_fails_fields)
  from a b show ?thesis by (simp add: mock_fields)
qed

end
